theory Spec2Isabelle
  imports Main
begin

unbundle bit_operations_syntax

section \<open>Bytes, words and text\<close>

text \<open>
  A Python \<open>str\<close> is modelled as \<^typ>\<open>string\<close>: a list of characters with code points
  0 to 255.  \<open>bytes\<close> are lists of integers from 0 to 255, and the 32-bit words of SHA-256 are
  integers from 0 below \<open>2 ^ 32\<close> with the wrap-around written out as a mask.
\<close>

type_synonym byte = int
type_synonym u32 = int

text \<open>\<open>s.encode("utf-8")\<close> on code points 0 to 255: one byte below 128, two bytes above.\<close>

fun utf8_char :: "char \<Rightarrow> byte list" where
  "utf8_char c =
     (let n = (of_char c :: int)
      in if n < 128 then [n] else [192 + n div 64, 128 + n mod 64])"

definition utf8_encode :: "string \<Rightarrow> byte list" where
  "utf8_encode s = concat (map utf8_char s)"

text \<open>\<open>b.decode("utf-8")\<close> on bytes below 128, which is all that \<open>b64encode\<close> produces.\<close>

definition ascii_decode :: "byte list \<Rightarrow> string" where
  "ascii_decode bs = map char_of bs"

section \<open>SHA-256 (\<open>hashlib.sha256\<close>)\<close>

definition add32 :: "u32 \<Rightarrow> u32 \<Rightarrow> u32" where
  "add32 x y = (x + y) AND 0xffffffff"

definition rotr :: "nat \<Rightarrow> u32 \<Rightarrow> u32" where
  "rotr n x = (drop_bit n x OR push_bit (32 - n) x) AND 0xffffffff"

definition ch :: "u32 \<Rightarrow> u32 \<Rightarrow> u32 \<Rightarrow> u32" where
  "ch x y z = (x AND y) XOR (NOT x AND z)"

definition maj :: "u32 \<Rightarrow> u32 \<Rightarrow> u32 \<Rightarrow> u32" where
  "maj x y z = (x AND y) XOR (x AND z) XOR (y AND z)"

definition bsig0 :: "u32 \<Rightarrow> u32" where
  "bsig0 x = rotr 2 x XOR rotr 13 x XOR rotr 22 x"

definition bsig1 :: "u32 \<Rightarrow> u32" where
  "bsig1 x = rotr 6 x XOR rotr 11 x XOR rotr 25 x"

definition ssig0 :: "u32 \<Rightarrow> u32" where
  "ssig0 x = rotr 7 x XOR rotr 18 x XOR drop_bit 3 x"

definition ssig1 :: "u32 \<Rightarrow> u32" where
  "ssig1 x = rotr 17 x XOR rotr 19 x XOR drop_bit 10 x"

definition sha256_k :: "u32 list" where
  "sha256_k =
    [0x428A2F98, 0x71374491, 0xB5C0FBCF, 0xE9B5DBA5, 0x3956C25B, 0x59F111F1, 0x923F82A4, 0xAB1C5ED5,
     0xD807AA98, 0x12835B01, 0x243185BE, 0x550C7DC3, 0x72BE5D74, 0x80DEB1FE, 0x9BDC06A7, 0xC19BF174,
     0xE49B69C1, 0xEFBE4786, 0x0FC19DC6, 0x240CA1CC, 0x2DE92C6F, 0x4A7484AA, 0x5CB0A9DC, 0x76F988DA,
     0x983E5152, 0xA831C66D, 0xB00327C8, 0xBF597FC7, 0xC6E00BF3, 0xD5A79147, 0x06CA6351, 0x14292967,
     0x27B70A85, 0x2E1B2138, 0x4D2C6DFC, 0x53380D13, 0x650A7354, 0x766A0ABB, 0x81C2C92E, 0x92722C85,
     0xA2BFE8A1, 0xA81A664B, 0xC24B8B70, 0xC76C51A3, 0xD192E819, 0xD6990624, 0xF40E3585, 0x106AA070,
     0x19A4C116, 0x1E376C08, 0x2748774C, 0x34B0BCB5, 0x391C0CB3, 0x4ED8AA4A, 0x5B9CCA4F, 0x682E6FF3,
     0x748F82EE, 0x78A5636F, 0x84C87814, 0x8CC70208, 0x90BEFFFA, 0xA4506CEB, 0xBEF9A3F7, 0xC67178F2]"

definition sha256_init :: "u32 list" where
  "sha256_init =
    [0x6A09E667, 0xBB67AE85, 0x3C6EF372, 0xA54FF53A, 0x510E527F, 0x9B05688C, 0x1F83D9AB, 0x5BE0CD19]"

text \<open>Big-endian packing of four bytes into a word, and back.\<close>

definition be32 :: "byte \<Rightarrow> byte \<Rightarrow> byte \<Rightarrow> byte \<Rightarrow> u32" where
  "be32 a b c d = ((a * 256 + b) * 256 + c) * 256 + d"

definition bytes_of_u32 :: "u32 \<Rightarrow> byte list" where
  "bytes_of_u32 w = [w div 16777216 mod 256, w div 65536 mod 256, w div 256 mod 256, w mod 256]"

fun words_of_bytes :: "byte list \<Rightarrow> u32 list" where
  "words_of_bytes (a # b # c # d # rest) = be32 a b c d # words_of_bytes rest"
| "words_of_bytes _ = []"

text \<open>
  Padding: the byte \<open>0x80\<close>, zero bytes up to 56 modulo 64, and the length of the message in
  bits as eight big-endian bytes.
\<close>

definition sha256_pad :: "byte list \<Rightarrow> byte list" where
  "sha256_pad m =
     m @ [128] @ replicate ((119 - length m mod 64) mod 64) 0 @
     map (\<lambda>i. (8 * int (length m)) div 256 ^ (7 - i) mod 256) [0..<8]"

text \<open>
  The 64 rounds over one block of sixteen words.  The second argument is the sliding window of
  the next sixteen words of the message schedule, the third the working variables \<open>a\<close> to
  \<open>h\<close>.
\<close>

definition sched_word :: "u32 \<Rightarrow> u32 list \<Rightarrow> u32" where
  "sched_word x rest =
     add32 (add32 (add32 (ssig1 (rest ! 13)) (rest ! 8)) (ssig0 (rest ! 0))) x"

definition temp1 :: "u32 \<Rightarrow> u32 \<Rightarrow> u32 \<Rightarrow> u32 \<Rightarrow> u32 \<Rightarrow> u32 \<Rightarrow> u32" where
  "temp1 e f g h k x = add32 (add32 (add32 (add32 h (bsig1 e)) (ch e f g)) k) x"

definition temp2 :: "u32 \<Rightarrow> u32 \<Rightarrow> u32 \<Rightarrow> u32" where
  "temp2 a b c = add32 (bsig0 a) (maj a b c)"

definition shift_in :: "u32 \<Rightarrow> u32 \<Rightarrow> u32 list \<Rightarrow> u32 list" where
  "shift_in t1 t2 s =
     [add32 t1 t2, s ! 0, s ! 1, s ! 2, add32 (s ! 3) t1, s ! 4, s ! 5, s ! 6]"

definition round_step :: "u32 \<Rightarrow> u32 \<Rightarrow> u32 list \<Rightarrow> u32 list" where
  "round_step k x s =
     shift_in (temp1 (s ! 4) (s ! 5) (s ! 6) (s ! 7) k x) (temp2 (s ! 0) (s ! 1) (s ! 2)) s"

fun rounds :: "u32 list \<Rightarrow> u32 list \<Rightarrow> u32 list \<Rightarrow> u32 list" where
  "rounds (k # ks) (x # rest) s = rounds ks (rest @ [sched_word x rest]) (round_step k x s)"
| "rounds _ _ s = s"

definition compress :: "u32 list \<Rightarrow> u32 list \<Rightarrow> u32 list" where
  "compress h blk = map2 add32 h (rounds sha256_k blk h)"

fun blocks :: "u32 list \<Rightarrow> u32 list list" where
  "blocks [] = []"
| "blocks (w # ws) = take 16 (w # ws) # blocks (drop 16 (w # ws))"

definition sha256 :: "byte list \<Rightarrow> byte list" where
  "sha256 m =
     concat (map bytes_of_u32
       (foldl compress sha256_init (blocks (words_of_bytes (sha256_pad m)))))"

section \<open>HMAC (\<open>hmac.new(key, msg, hashlib.sha256).digest()\<close>) and base64\<close>

definition hmac_key_block :: "byte list \<Rightarrow> byte list" where
  "hmac_key_block key =
     (let k0 = (if 64 < length key then sha256 key else key)
      in k0 @ replicate (64 - length k0) 0)"

definition hmac_sha256 :: "byte list \<Rightarrow> byte list \<Rightarrow> byte list" where
  "hmac_sha256 key msg =
     sha256 (map (\<lambda>b. b XOR 0x5c) (hmac_key_block key) @
             sha256 (map (\<lambda>b. b XOR 0x36) (hmac_key_block key) @ msg))"

definition b64_alphabet :: "string" where
  "b64_alphabet = ''ABCDEFGHIJKLMNOPQRSTUVWXYZabcdefghijklmnopqrstuvwxyz0123456789+/''"

definition b64_char :: "int \<Rightarrow> byte" where
  "b64_char i = of_char (b64_alphabet ! nat i)"

fun b64encode :: "byte list \<Rightarrow> byte list" where
  "b64encode [] = []"
| "b64encode [a] =
     [b64_char (a div 4), b64_char (a mod 4 * 16), 61, 61]"
| "b64encode [a, b] =
     [b64_char (a div 4), b64_char (a mod 4 * 16 + b div 16), b64_char (b mod 16 * 4), 61]"
| "b64encode (a # b # c # rest) =
     [b64_char (a div 4), b64_char (a mod 4 * 16 + b div 16),
      b64_char (b mod 16 * 4 + c div 64), b64_char (c mod 64)] @ b64encode rest"

section \<open>The signature function\<close>

text \<open>
  \<open>make_searchad_signature\<close> of \<open>main.py\<close>: the message is the f-string
  \<open>f"{timestamp}.{method}.{uri}"\<close>, in which the three arguments stand as they were passed.
\<close>

definition searchad_message :: "string \<Rightarrow> string \<Rightarrow> string \<Rightarrow> string" where
  "searchad_message timestamp method uri = timestamp @ ''.'' @ method @ ''.'' @ uri"

definition make_searchad_signature :: "string \<Rightarrow> string \<Rightarrow> string \<Rightarrow> string \<Rightarrow> string" where
  "make_searchad_signature timestamp method uri secret_key =
     ascii_decode (b64encode
       (hmac_sha256 (utf8_encode secret_key)
          (utf8_encode (searchad_message timestamp method uri))))"

section \<open>Python values\<close>

text \<open>
  What \<open>resp.json()\<close> can return.  A \<open>float\<close> is \<open>Finite m e\<close> for the binary
  fraction \<open>m * 2 ^ e\<close>, or one of the three special values; the decoder yields the
  infinities for \<open>Infinity\<close> and for a literal beyond the range of a double such as
  \<open>1e999\<close>.  An object keeps its members in the order of the text, and a lookup takes the last
  member of a repeated key, as the decoder's \<open>dict\<close> does.
\<close>

datatype pyfloat = Finite int int | PosInf | NegInf | NaN

datatype json =
    JNull
  | JBool bool
  | JInt int
  | JFloat pyfloat
  | JStr string
  | JArr "json list"
  | JObj "(string \<times> json) list"

datatype pyexc =
  TypeError | ValueError | OverflowError | AttributeError | KeyError | IndexError | JSONDecodeError

text \<open>Truth value testing, as in \<open>not kw_list\<close> and \<open>x or 0\<close>.\<close>

fun truthy :: "json \<Rightarrow> bool" where
  "truthy JNull = False"
| "truthy (JBool b) = b"
| "truthy (JInt n) = (n \<noteq> 0)"
| "truthy (JFloat (Finite m e)) = (m \<noteq> 0)"
| "truthy (JFloat _) = True"
| "truthy (JStr s) = (s \<noteq> [])"
| "truthy (JArr xs) = (xs \<noteq> [])"
| "truthy (JObj kvs) = (kvs \<noteq> [])"

definition py_or :: "json \<Rightarrow> json \<Rightarrow> json" where
  "py_or v d = (if truthy v then v else d)"

text \<open>
  The member of a key in a decoded object, and \<open>d.get(k, default)\<close>; only a \<open>dict\<close>
  has the method.
\<close>

definition dict_lookup :: "(string \<times> json) list \<Rightarrow> string \<Rightarrow> json option" where
  "dict_lookup kvs k = map_of (rev kvs) k"

definition dict_get :: "(string \<times> json) list \<Rightarrow> string \<Rightarrow> json \<Rightarrow> json" where
  "dict_get kvs k d = (case dict_lookup kvs k of None \<Rightarrow> d | Some v \<Rightarrow> v)"

fun py_get :: "json \<Rightarrow> string \<Rightarrow> json \<Rightarrow> pyexc + json" where
  "py_get (JObj kvs) k d = Inr (dict_get kvs k d)"
| "py_get _ k d = Inl AttributeError"

text \<open>
  \<open>x[0]\<close>: the first element of a list, the first character of a string, the key \<open>0\<close>
  of a \<open>dict\<close> (never there: the keys of a decoded object are strings); the other values
  are not subscriptable.
\<close>

fun first_item :: "json \<Rightarrow> pyexc + json" where
  "first_item (JArr (x # xs)) = Inr x"
| "first_item (JArr []) = Inl IndexError"
| "first_item (JStr (c # cs)) = Inr (JStr [c])"
| "first_item (JStr []) = Inl IndexError"
| "first_item (JObj kvs) = Inl KeyError"
| "first_item _ = Inl TypeError"

subsection \<open>The builtin \<open>int\<close>\<close>

text \<open>
  \<open>int(s)\<close> on a string strips white space at both ends, reads an optional sign and then
  decimal digits, between which single underscores may stand.  Among the code points 0 to 255
  the white space is tab to carriage return, the blank, \<open>0x85\<close> and \<open>0xA0\<close>, and the
  decimal digits are \<open>0\<close> to \<open>9\<close>.  \<open>lim\<close> is the interpreter's
  \<open>sys.get_int_max_str_digits()\<close>: when it is not 0, a string of more digits is refused
  with \<open>ValueError\<close>.
\<close>

definition is_space :: "char \<Rightarrow> bool" where
  "is_space c = ((of_char c :: nat) \<in> {9, 10, 11, 12, 13, 32, 133, 160})"

definition py_strip :: "string \<Rightarrow> string" where
  "py_strip s = rev (dropWhile is_space (rev (dropWhile is_space s)))"

definition digit_val :: "char \<Rightarrow> nat option" where
  "digit_val c =
     (let n = (of_char c :: nat) in if 48 \<le> n \<and> n \<le> 57 then Some (n - 48) else None)"

fun digits_value :: "nat \<Rightarrow> string \<Rightarrow> nat option" where
  "digits_value acc [] = None"
| "digits_value acc (c # cs) =
     (case digit_val c of
        None \<Rightarrow> None
      | Some d \<Rightarrow>
          (case cs of
             [] \<Rightarrow> Some (10 * acc + d)
           | c' # cs' \<Rightarrow>
               if c' = CHR ''_'' then digits_value (10 * acc + d) cs'
               else digits_value (10 * acc + d) cs))"

definition count_digits :: "string \<Rightarrow> nat" where
  "count_digits s = length (filter (\<lambda>c. digit_val c \<noteq> None) s)"

definition signed_digits :: "nat \<Rightarrow> bool \<Rightarrow> string \<Rightarrow> pyexc + int" where
  "signed_digits lim neg ds =
     (case digits_value 0 ds of
        None \<Rightarrow> Inl ValueError
      | Some n \<Rightarrow>
          if 0 < lim \<and> lim < count_digits ds then Inl ValueError
          else Inr (if neg then - int n else int n))"

definition int_of_str :: "nat \<Rightarrow> string \<Rightarrow> pyexc + int" where
  "int_of_str lim s =
     (case py_strip s of
        [] \<Rightarrow> Inl ValueError
      | c # cs \<Rightarrow>
          if c = CHR ''-'' then signed_digits lim True cs
          else if c = CHR ''+'' then signed_digits lim False cs
          else signed_digits lim False (c # cs))"

text \<open>
  \<open>int(x)\<close> on a float truncates towards zero; \<open>nan\<close> raises \<open>ValueError\<close> and an
  infinity raises \<open>OverflowError\<close>.
\<close>

fun int_of_float :: "pyfloat \<Rightarrow> pyexc + int" where
  "int_of_float (Finite m e) =
     Inr (if 0 \<le> e then m * 2 ^ nat e else sgn m * (\<bar>m\<bar> div 2 ^ nat (- e)))"
| "int_of_float NaN = Inl ValueError"
| "int_of_float _ = Inl OverflowError"

fun py_int :: "nat \<Rightarrow> json \<Rightarrow> pyexc + int" where
  "py_int lim (JBool b) = Inr (if b then 1 else 0)"
| "py_int lim (JInt n) = Inr n"
| "py_int lim (JFloat f) = int_of_float f"
| "py_int lim (JStr s) = int_of_str lim s"
| "py_int lim _ = Inl TypeError"

text \<open>\<open>str(n)\<close> on an integer: its decimal digits, after a minus sign when negative.\<close>

fun digits_of :: "nat \<Rightarrow> string" where
  "digits_of n =
     (if n < 10 then [char_of (48 + n)]
      else digits_of (n div 10) @ [char_of (48 + n mod 10)])"

declare digits_of.simps [simp del]

definition py_str_int :: "int \<Rightarrow> string" where
  "py_str_int i = (if i < 0 then CHR ''-'' # digits_of (nat (- i)) else digits_of (nat i))"

subsection \<open>Rendering a \<open>JSONResponse\<close>\<close>

text \<open>
  \<open>JSONResponse(content)\<close> renders its content when it is constructed, inside the handler,
  with \<open>json.dumps(content, allow_nan=False)\<close>.  That raises \<open>ValueError\<close> for a float
  that is \<open>nan\<close> or an infinity anywhere in the content, and for an integer of more digits
  than the interpreter's limit \<open>lim\<close> on the conversion between \<open>int\<close> and \<open>str\<close>
  (0 for no limit; the sign is not counted).
\<close>

definition int_renders :: "nat \<Rightarrow> int \<Rightarrow> bool" where
  "int_renders lim n = (lim = 0 \<or> length (digits_of (nat \<bar>n\<bar>)) \<le> lim)"

fun renderable :: "nat \<Rightarrow> json \<Rightarrow> bool" where
  "renderable lim JNull = True"
| "renderable lim (JBool b) = True"
| "renderable lim (JInt n) = int_renders lim n"
| "renderable lim (JFloat (Finite m e)) = True"
| "renderable lim (JFloat _) = False"
| "renderable lim (JStr s) = True"
| "renderable lim (JArr xs) = list_all (renderable lim) xs"
| "renderable lim (JObj kvs) = list_all (\<lambda>kv. renderable lim (snd kv)) kvs"


section \<open>The process environment and the network\<close>

text \<open>
  The module reads its settings once with \<open>os.getenv\<close>, which gives \<open>None\<close> for a
  variable that is not set.  The module refuses to load unless \<open>NAVER_CLIENT_ID\<close> and
  \<open>NAVER_CLIENT_SECRET\<close> are set and not empty, so these two are plain strings here; the three
  advertising settings may be absent.  \<open>int_max_str_digits\<close> is the interpreter's limit
  on the digits of a conversion between \<open>int\<close> and \<open>str\<close>, 0 for no limit.
\<close>

record env =
  NAVER_CLIENT_ID :: string
  NAVER_CLIENT_SECRET :: string
  NAVER_AD_API_KEY :: "string option"
  NAVER_AD_SECRET_KEY :: "string option"
  NAVER_AD_CUSTOMER_ID :: "string option"
  int_max_str_digits :: nat

text \<open>\<open>not v\<close> on a setting: \<open>None\<close> and the empty string are false.\<close>

definition not_set :: "string option \<Rightarrow> bool" where
  "not_set v = (case v of None \<Rightarrow> True | Some s \<Rightarrow> s = [])"

text \<open>The string of a setting, read only behind the guard that it is set.\<close>

definition setting :: "string option \<Rightarrow> string" where
  "setting v = (case v of None \<Rightarrow> [] | Some s \<Rightarrow> s)"

text \<open>
  An outbound \<open>requests.get\<close> and what comes back: a response, with its status, its text
  and what \<open>resp.json()\<close> gives for it (\<open>None\<close> when the text is not JSON), or a
  \<open>requests.RequestException\<close> with its message.
\<close>

record request =
  url :: string
  headers :: "(string \<times> string) list"
  params :: "(string \<times> json) list"
  timeout :: nat

record response =
  status_code :: int
  resp_text :: string
  resp_json :: "json option"

datatype net_outcome = Responded response | RequestException string

text \<open>
  How a handler fails: an \<open>HTTPException\<close> with its status and detail, or an exception that
  no handler code catches.  The three fixed messages of \<open>main.py\<close> are Korean text outside
  the code points of \<^typ>\<open>string\<close>; each has a constructor of its own: \<open>AdKeysNotSet\<close>
  for the message that the \<open>NAVER_SEARCH_*\<close> keys are not set, \<open>BlogCallFailed e\<close> and
  \<open>AdNetworkError e\<close> for the two messages that end in the text of the network error
  \<open>e\<close>.  \<open>Text\<close> is a detail given as a string.
\<close>

datatype detail = Text string | AdKeysNotSet | BlogCallFailed string | AdNetworkError string

datatype failure = HTTPException int detail | Unhandled pyexc

text \<open>\<open>JSONResponse(content)\<close>: the content, or the \<open>ValueError\<close> of its rendering.\<close>

definition json_response :: "nat \<Rightarrow> json \<Rightarrow> failure + json" where
  "json_response lim content =
     (if renderable lim content then Inr content else Inl (Unhandled ValueError))"

section \<open>The handlers\<close>

text \<open>
  A handler takes the environment, the network as a function from the request to its outcome,
  and the query parameter.  It returns the requests it has sent, in order, and either a
  failure or the content of its \<open>JSONResponse\<close>.
\<close>

definition blog_request :: "env \<Rightarrow> string \<Rightarrow> request" where
  "blog_request cfg query =
     \<lparr>url = ''https://openapi.naver.com/v1/search/blog.json'',
      headers = [(''X-Naver-Client-Id'', NAVER_CLIENT_ID cfg),
                 (''X-Naver-Client-Secret'', NAVER_CLIENT_SECRET cfg)],
      params = [(''query'', JStr query), (''display'', JInt 1), (''start'', JInt 1),
                (''sort'', JStr ''sim'')],
      timeout = 5\<rparr>"

definition blog_total ::
  "env \<Rightarrow> (request \<Rightarrow> net_outcome) \<Rightarrow> string \<Rightarrow> request list \<times> (failure + json)" where
  "blog_total cfg net query =
     (case net (blog_request cfg query) of
        RequestException e \<Rightarrow>
          ([blog_request cfg query], Inl (HTTPException 502 (BlogCallFailed e)))
      | Responded resp \<Rightarrow>
          ([blog_request cfg query],
           if status_code resp \<noteq> 200
           then Inl (HTTPException (status_code resp) (Text (resp_text resp)))
           else
             (case resp_json resp of
                None \<Rightarrow> Inl (Unhandled JSONDecodeError)
              | Some data \<Rightarrow>
                  (case py_get data ''total'' (JInt 0) of
                     Inl e \<Rightarrow> Inl (Unhandled e)
                   | Inr total_raw \<Rightarrow>
                       (case py_int (int_max_str_digits cfg) total_raw of
                          Inr total_int \<Rightarrow>
                            json_response (int_max_str_digits cfg)
                              (JObj [(''keyword'', JStr query), (''total'', JInt total_int)])
                        | Inl e \<Rightarrow>
                            if e = TypeError \<or> e = ValueError
                            then json_response (int_max_str_digits cfg)
                              (JObj [(''keyword'', JStr query), (''total'', JInt 0)])
                            else Inl (Unhandled e))))))"

definition SEARCHAD_BASE_URL :: string where
  "SEARCHAD_BASE_URL = ''https://api.searchad.naver.com''"

definition SEARCHAD_URI :: string where
  "SEARCHAD_URI = ''/keywordstool''"

text \<open>
  \<open>now_ms\<close> is \<open>round(time.time() * 1000)\<close>, the clock read in milliseconds.
\<close>

definition searchad_request :: "env \<Rightarrow> int \<Rightarrow> string \<Rightarrow> request" where
  "searchad_request cfg now_ms keyword =
     \<lparr>url = SEARCHAD_BASE_URL @ SEARCHAD_URI,
      headers = [(''X-Timestamp'', py_str_int now_ms),
                 (''X-API-KEY'', setting (NAVER_AD_API_KEY cfg)),
                 (''X-Customer'', setting (NAVER_AD_CUSTOMER_ID cfg)),
                 (''X-Signature'',
                  make_searchad_signature (py_str_int now_ms) ''GET'' SEARCHAD_URI
                    (setting (NAVER_AD_SECRET_KEY cfg)))],
      params = [(''hintKeywords'', JStr keyword), (''showDetail'', JStr ''1'')],
      timeout = 10\<rparr>"

text \<open>The part of \<open>search_volume\<close> after \<open>data = resp.json()\<close>.\<close>

definition volume_reply :: "json \<Rightarrow> int \<Rightarrow> int \<Rightarrow> int \<Rightarrow> json" where
  "volume_reply kw pc mobile total_cnt =
     JObj [(''keyword'', kw), (''monthlyPcQcCnt'', JInt pc),
           (''monthlyMobileQcCnt'', JInt mobile), (''monthlyTotalQcCnt'', JInt total_cnt)]"

definition search_volume_data :: "nat \<Rightarrow> string \<Rightarrow> json \<Rightarrow> failure + json" where
  "search_volume_data lim keyword data =
     (case py_get data ''keywordList'' (JArr []) of
        Inl e \<Rightarrow> Inl (Unhandled e)
      | Inr kw_list \<Rightarrow>
          if \<not> truthy kw_list then json_response lim (volume_reply (JStr keyword) 0 0 0)
          else
            (case first_item kw_list of
               Inl e \<Rightarrow> Inl (Unhandled e)
             | Inr first \<Rightarrow>
                 (case py_get first ''monthlyPcQcCnt'' (JStr ''0'') of
                    Inl e \<Rightarrow> Inl (Unhandled e)
                  | Inr pc_raw \<Rightarrow>
                      (case py_int lim (py_or pc_raw (JInt 0)) of
                         Inl e \<Rightarrow> Inl (Unhandled e)
                       | Inr pc \<Rightarrow>
                           (case py_get first ''monthlyMobileQcCnt'' (JStr ''0'') of
                              Inl e \<Rightarrow> Inl (Unhandled e)
                            | Inr mobile_raw \<Rightarrow>
                                (case py_int lim (py_or mobile_raw (JInt 0)) of
                                   Inl e \<Rightarrow> Inl (Unhandled e)
                                 | Inr mobile \<Rightarrow>
                                     (case py_get first ''relKeyword'' (JStr keyword) of
                                        Inl e \<Rightarrow> Inl (Unhandled e)
                                      | Inr kw \<Rightarrow>
                                          json_response lim
                                            (volume_reply kw pc mobile (pc + mobile)))))))))"

definition search_volume ::
  "env \<Rightarrow> int \<Rightarrow> (request \<Rightarrow> net_outcome) \<Rightarrow> string \<Rightarrow> request list \<times> (failure + json)" where
  "search_volume cfg now_ms net keyword =
     (if not_set (NAVER_AD_API_KEY cfg) \<or> not_set (NAVER_AD_SECRET_KEY cfg) \<or>
         not_set (NAVER_AD_CUSTOMER_ID cfg)
      then ([], Inl (HTTPException 500 AdKeysNotSet))
      else
        (case net (searchad_request cfg now_ms keyword) of
           RequestException e \<Rightarrow>
             ([searchad_request cfg now_ms keyword], Inl (HTTPException 502 (AdNetworkError e)))
         | Responded resp \<Rightarrow>
             ([searchad_request cfg now_ms keyword],
              if status_code resp \<noteq> 200
              then Inl (HTTPException (status_code resp) (Text (resp_text resp)))
              else
                (case resp_json resp of
                   None \<Rightarrow> Inl (Unhandled JSONDecodeError)
                 | Some data \<Rightarrow> search_volume_data (int_max_str_digits cfg) keyword data))))"

section \<open>Values used in the statements\<close>

text \<open>
  The claim about the sign of the counts is stated with two notions.  An upstream value
  coerces to a negative integer when \<open>int\<close> accepts it and returns a number below 0.  The
  upstream value of a count of \<open>search_volume\<close> is the member of that name in the first
  element of \<open>keywordList\<close>, the string \<open>0\<close> when the element has no such member, and
  the number 0 when \<open>keywordList\<close> has no first element that is an object.
\<close>

definition coerces_negative :: "nat \<Rightarrow> json \<Rightarrow> bool" where
  "coerces_negative lim v = (case py_int lim v of Inl e \<Rightarrow> False | Inr n \<Rightarrow> n < 0)"

definition upstream_count :: "(string \<times> json) list \<Rightarrow> string \<Rightarrow> json" where
  "upstream_count kvs field =
     (case dict_get kvs ''keywordList'' (JArr []) of
        JArr (JObj first # rest) \<Rightarrow> dict_get first field (JStr ''0'')
      | _ \<Rightarrow> JInt 0)"

text \<open>
  A value that can be seen to be negative without running \<open>int\<close>: a negative number, or a
  string with a minus sign.  Only such a value is coerced to a negative integer (lemma
  \<open>not_negative_value_not_coerced\<close>).
\<close>

fun negative_value :: "json \<Rightarrow> bool" where
  "negative_value (JInt n) = (n < 0)"
| "negative_value (JFloat (Finite m e)) = (m < 0)"
| "negative_value (JFloat NegInf) = True"
| "negative_value (JStr s) = (CHR ''-'' \<in> set s)"
| "negative_value _ = False"

text \<open>
  An environment in which every setting is present, and a response with status 200 and a
  decoded body; its text, which a handler reads only for another status, is left empty.
\<close>

definition example_env :: env where
  "example_env =
     \<lparr>NAVER_CLIENT_ID = ''client-id'', NAVER_CLIENT_SECRET = ''client-secret'',
      NAVER_AD_API_KEY = Some ''license-key'', NAVER_AD_SECRET_KEY = Some ''testsecret'',
      NAVER_AD_CUSTOMER_ID = Some ''1234567'', int_max_str_digits = 4300\<rparr>"

definition ok_response :: "json \<Rightarrow> response" where
  "ok_response data = \<lparr>status_code = 200, resp_text = [], resp_json = Some data\<rparr>"

text \<open>
  A body with one count that is not negative and one that is, and the body of the
  specification's example for the keyword \<open>apple\<close>, with a total of upstream's own added to
  the first element.
\<close>

definition mixed_body :: json where
  "mixed_body =
     JObj [(''keywordList'',
        JArr [JObj [(''monthlyPcQcCnt'', JInt 5), (''monthlyMobileQcCnt'', JStr ''-4'')]])]"

definition apple_body :: json where
  "apple_body =
     JObj [(''keywordList'',
        JArr [JObj [(''relKeyword'', JStr ''apple''), (''monthlyPcQcCnt'', JStr ''100''),
                    (''monthlyMobileQcCnt'', JStr ''200''),
                    (''monthlyTotalQcCnt'', JInt 999)]])]"


section \<open>Evaluating the compression function\<close>

lemmas sha256_round_defs =
  add32_def rotr_def ch_def maj_def bsig0_def bsig1_def ssig0_def ssig1_def
  sched_word_def temp1_def temp2_def shift_in_def round_step_def
  compress_def sha256_init_def sha256_k_def

section \<open>Known answers\<close>

text \<open>
  The models of the three library functions reproduce the published test vectors: SHA-256 of
  \<open>abc\<close> (FIPS 180-4), HMAC-SHA256 with the key \<open>Jefe\<close> (RFC 4231, test case 2), and
  the base64 examples of RFC 4648.
\<close>

lemma compress_abc:
  "compress sha256_init
     [0x61626380, 0x00000000, 0x00000000, 0x00000000, 0x00000000, 0x00000000, 0x00000000,
      0x00000000, 0x00000000, 0x00000000, 0x00000000, 0x00000000, 0x00000000, 0x00000000,
      0x00000000, 0x00000018] =
     [0xba7816bf, 0x8f01cfea, 0x414140de, 0x5dae2223, 0xb00361a3, 0x96177a9c, 0xb410ff61,
      0xf20015ad]"
  by (simp add: sha256_round_defs)

lemma sha256_abc:
  "sha256 (utf8_encode ''abc'') =
     [0xba, 0x78, 0x16, 0xbf, 0x8f, 0x01, 0xcf, 0xea, 0x41, 0x41, 0x40, 0xde, 0x5d, 0xae, 0x22,
      0x23, 0xb0, 0x03, 0x61, 0xa3, 0x96, 0x17, 0x7a, 0x9c, 0xb4, 0x10, 0xff, 0x61, 0xf2, 0x00,
      0x15, 0xad]"
proof -
  have "words_of_bytes (sha256_pad (utf8_encode ''abc'')) =
     [0x61626380, 0x00000000, 0x00000000, 0x00000000, 0x00000000, 0x00000000, 0x00000000,
      0x00000000, 0x00000000, 0x00000000, 0x00000000, 0x00000000, 0x00000000, 0x00000000,
      0x00000000, 0x00000018]"
    by code_simp
  then show ?thesis
    unfolding sha256_def
    by (simp add: compress_abc bytes_of_u32_def)
qed

lemma compress_ipad_Jefe:
  "compress sha256_init
     [0x7c535053, 0x36363636, 0x36363636, 0x36363636, 0x36363636, 0x36363636, 0x36363636,
      0x36363636, 0x36363636, 0x36363636, 0x36363636, 0x36363636, 0x36363636, 0x36363636,
      0x36363636, 0x36363636] =
     [0x655da7fa, 0xcc434b37, 0x5a1cd5cb, 0x0692ee0e, 0xa47a23d3, 0x4c3af449, 0xdba21ae2,
      0x78c7500c]"
  by (simp add: sha256_round_defs)

lemma compress_opad_Jefe:
  "compress sha256_init
     [0x16393a39, 0x5c5c5c5c, 0x5c5c5c5c, 0x5c5c5c5c, 0x5c5c5c5c, 0x5c5c5c5c, 0x5c5c5c5c,
      0x5c5c5c5c, 0x5c5c5c5c, 0x5c5c5c5c, 0x5c5c5c5c, 0x5c5c5c5c, 0x5c5c5c5c, 0x5c5c5c5c,
      0x5c5c5c5c, 0x5c5c5c5c] =
     [0x0eafe3d5, 0x13412e6c, 0x6a6a2feb, 0x2d375acc, 0x51a4fd47, 0x6db095e8, 0x23bfa18a,
      0x52f141d5]"
  by (simp add: sha256_round_defs)

lemma compress_inner_Jefe:
  "compress 
     [0x655da7fa, 0xcc434b37, 0x5a1cd5cb, 0x0692ee0e, 0xa47a23d3, 0x4c3af449, 0xdba21ae2,
      0x78c7500c]
     [0x77686174, 0x20646f20, 0x79612077, 0x616e7420, 0x666f7220, 0x6e6f7468, 0x696e673f,
      0x80000000, 0x00000000, 0x00000000, 0x00000000, 0x00000000, 0x00000000, 0x00000000,
      0x00000000, 0x000002e0] =
     [0xa2e48586, 0x3d27f9d8, 0x64ac8d80, 0x2432a1ed, 0x477d8c4c, 0x6f349d16, 0xd4e7e917,
      0xc629cad7]"
  by (simp add: sha256_round_defs)

lemma compress_outer_Jefe:
  "compress 
     [0x0eafe3d5, 0x13412e6c, 0x6a6a2feb, 0x2d375acc, 0x51a4fd47, 0x6db095e8, 0x23bfa18a,
      0x52f141d5]
     [0xa2e48586, 0x3d27f9d8, 0x64ac8d80, 0x2432a1ed, 0x477d8c4c, 0x6f349d16, 0xd4e7e917,
      0xc629cad7, 0x80000000, 0x00000000, 0x00000000, 0x00000000, 0x00000000, 0x00000000,
      0x00000000, 0x00000300] =
     [0x5bdcc146, 0xbf60754e, 0x6a042426, 0x089575c7, 0x5a003f08, 0x9d273983, 0x9dec58b9,
      0x64ec3843]"
  by (simp add: sha256_round_defs)

lemma hmac_sha256_Jefe:
  "hmac_sha256 (utf8_encode ''Jefe'') (utf8_encode ''what do ya want for nothing?'') =
     [0x5b, 0xdc, 0xc1, 0x46, 0xbf, 0x60, 0x75, 0x4e, 0x6a, 0x04, 0x24, 0x26, 0x08, 0x95, 0x75,
      0xc7, 0x5a, 0x00, 0x3f, 0x08, 0x9d, 0x27, 0x39, 0x83, 0x9d, 0xec, 0x58, 0xb9, 0x64, 0xec,
      0x38, 0x43]"
proof -
  have "words_of_bytes (sha256_pad (map (\<lambda>b. b XOR 0x36) (hmac_key_block (utf8_encode ''Jefe'')) @
     utf8_encode ''what do ya want for nothing?'')) =
     [0x7c535053, 0x36363636, 0x36363636, 0x36363636, 0x36363636, 0x36363636, 0x36363636,
      0x36363636, 0x36363636, 0x36363636, 0x36363636, 0x36363636, 0x36363636, 0x36363636,
      0x36363636, 0x36363636, 0x77686174, 0x20646f20, 0x79612077, 0x616e7420, 0x666f7220,
      0x6e6f7468, 0x696e673f, 0x80000000, 0x00000000, 0x00000000, 0x00000000, 0x00000000,
      0x00000000, 0x00000000, 0x00000000, 0x000002e0]"
    by code_simp
  then have inner: "sha256 (map (\<lambda>b. b XOR 0x36) (hmac_key_block (utf8_encode ''Jefe'')) @
     utf8_encode ''what do ya want for nothing?'') =
     [0xa2, 0xe4, 0x85, 0x86, 0x3d, 0x27, 0xf9, 0xd8, 0x64, 0xac, 0x8d, 0x80, 0x24, 0x32, 0xa1,
      0xed, 0x47, 0x7d, 0x8c, 0x4c, 0x6f, 0x34, 0x9d, 0x16, 0xd4, 0xe7, 0xe9, 0x17, 0xc6, 0x29,
      0xca, 0xd7]"
    unfolding sha256_def
    by (simp add: compress_ipad_Jefe compress_inner_Jefe bytes_of_u32_def)
  have "words_of_bytes (sha256_pad (map (\<lambda>b. b XOR 0x5c) (hmac_key_block (utf8_encode ''Jefe'')) @
     [0xa2, 0xe4, 0x85, 0x86, 0x3d, 0x27, 0xf9, 0xd8, 0x64, 0xac, 0x8d, 0x80, 0x24, 0x32, 0xa1,
      0xed, 0x47, 0x7d, 0x8c, 0x4c, 0x6f, 0x34, 0x9d, 0x16, 0xd4, 0xe7, 0xe9, 0x17, 0xc6, 0x29,
      0xca, 0xd7])) =
     [0x16393a39, 0x5c5c5c5c, 0x5c5c5c5c, 0x5c5c5c5c, 0x5c5c5c5c, 0x5c5c5c5c, 0x5c5c5c5c,
      0x5c5c5c5c, 0x5c5c5c5c, 0x5c5c5c5c, 0x5c5c5c5c, 0x5c5c5c5c, 0x5c5c5c5c, 0x5c5c5c5c,
      0x5c5c5c5c, 0x5c5c5c5c, 0xa2e48586, 0x3d27f9d8, 0x64ac8d80, 0x2432a1ed, 0x477d8c4c,
      0x6f349d16, 0xd4e7e917, 0xc629cad7, 0x80000000, 0x00000000, 0x00000000, 0x00000000,
      0x00000000, 0x00000000, 0x00000000, 0x00000300]"
    by code_simp
  then have "sha256 (map (\<lambda>b. b XOR 0x5c) (hmac_key_block (utf8_encode ''Jefe'')) @
     [0xa2, 0xe4, 0x85, 0x86, 0x3d, 0x27, 0xf9, 0xd8, 0x64, 0xac, 0x8d, 0x80, 0x24, 0x32, 0xa1,
      0xed, 0x47, 0x7d, 0x8c, 0x4c, 0x6f, 0x34, 0x9d, 0x16, 0xd4, 0xe7, 0xe9, 0x17, 0xc6, 0x29,
      0xca, 0xd7]) =
     [0x5b, 0xdc, 0xc1, 0x46, 0xbf, 0x60, 0x75, 0x4e, 0x6a, 0x04, 0x24, 0x26, 0x08, 0x95, 0x75,
      0xc7, 0x5a, 0x00, 0x3f, 0x08, 0x9d, 0x27, 0x39, 0x83, 0x9d, 0xec, 0x58, 0xb9, 0x64, 0xec,
      0x38, 0x43]"
    unfolding sha256_def
    by (simp add: compress_opad_Jefe compress_outer_Jefe bytes_of_u32_def)
  with inner show ?thesis
    unfolding hmac_sha256_def by simp
qed

lemma b64encode_rfc4648:
  "ascii_decode (b64encode (utf8_encode [])) = []"
  "ascii_decode (b64encode (utf8_encode ''f'')) = ''Zg==''"
  "ascii_decode (b64encode (utf8_encode ''fo'')) = ''Zm8=''"
  "ascii_decode (b64encode (utf8_encode ''foo'')) = ''Zm9v''"
  "ascii_decode (b64encode (utf8_encode ''foob'')) = ''Zm9vYg==''"
  "ascii_decode (b64encode (utf8_encode ''fooba'')) = ''Zm9vYmE=''"
  "ascii_decode (b64encode (utf8_encode ''foobar'')) = ''Zm9vYmFy''"
  by code_simp+

section \<open>Evaluating the signature\<close>

text \<open>
  The compression function is evaluated block by block: the two blocks of the padded keys,
  shared by every message under the key \<open>testsecret\<close>, then the block of each message and
  of each inner digest.
\<close>

lemma compress_ipad_block:
  "compress sha256_init
     [0x42534542, 0x45535544, 0x53423636, 0x36363636, 0x36363636, 0x36363636, 0x36363636,
      0x36363636, 0x36363636, 0x36363636, 0x36363636, 0x36363636, 0x36363636, 0x36363636,
      0x36363636, 0x36363636] =
     [0x2ccfca50, 0xd508c5cd, 0xa192f081, 0x82c4c0f1, 0x602091c3, 0x13338e6a, 0xfdc47088,
      0x1d0e2e66]"
  by (simp add: sha256_round_defs)

lemma compress_opad_block:
  "compress sha256_init
     [0x28392f28, 0x2f393f2e, 0x39285c5c, 0x5c5c5c5c, 0x5c5c5c5c, 0x5c5c5c5c, 0x5c5c5c5c,
      0x5c5c5c5c, 0x5c5c5c5c, 0x5c5c5c5c, 0x5c5c5c5c, 0x5c5c5c5c, 0x5c5c5c5c, 0x5c5c5c5c,
      0x5c5c5c5c, 0x5c5c5c5c] =
     [0x23e1c193, 0x1fc7af6f, 0x90dc2e73, 0xf8b144ee, 0x02dfaaee, 0x6f731a40, 0x982fcf08,
      0xbbe7dfac]"
  by (simp add: sha256_round_defs)

lemma compress_inner_GET:
  "compress 
     [0x2ccfca50, 0xd508c5cd, 0xa192f081, 0x82c4c0f1, 0x602091c3, 0x13338e6a, 0xfdc47088,
      0x1d0e2e66]
     [0x31373030, 0x30303030, 0x30303030, 0x302e4745, 0x542e2f6b, 0x6579776f, 0x72647374,
      0x6f6f6c80, 0x00000000, 0x00000000, 0x00000000, 0x00000000, 0x00000000, 0x00000000,
      0x00000000, 0x000002f8] =
     [0x6a725611, 0xef520693, 0x1a590286, 0x4073943b, 0x5fa0cf5a, 0x6e810a4a, 0xb1cbf74c,
      0xeecaa9b9]"
  by (simp add: sha256_round_defs)

lemma compress_outer_GET:
  "compress 
     [0x23e1c193, 0x1fc7af6f, 0x90dc2e73, 0xf8b144ee, 0x02dfaaee, 0x6f731a40, 0x982fcf08,
      0xbbe7dfac]
     [0x6a725611, 0xef520693, 0x1a590286, 0x4073943b, 0x5fa0cf5a, 0x6e810a4a, 0xb1cbf74c,
      0xeecaa9b9, 0x80000000, 0x00000000, 0x00000000, 0x00000000, 0x00000000, 0x00000000,
      0x00000000, 0x00000300] =
     [0x7ee1d7e3, 0x4b8dab3a, 0x926bc5db, 0x3d22428e, 0x40e43312, 0x965ec4a1, 0xb53da718,
      0x7a5be1c9]"
  by (simp add: sha256_round_defs)

lemma sha256_inner_GET:
  "sha256 (map (\<lambda>b. b XOR 0x36) (hmac_key_block (utf8_encode ''testsecret'')) @
     utf8_encode ''1700000000000.GET./keywordstool'') =
     [0x6a, 0x72, 0x56, 0x11, 0xef, 0x52, 0x06, 0x93, 0x1a, 0x59, 0x02, 0x86, 0x40, 0x73, 0x94,
      0x3b, 0x5f, 0xa0, 0xcf, 0x5a, 0x6e, 0x81, 0x0a, 0x4a, 0xb1, 0xcb, 0xf7, 0x4c, 0xee, 0xca,
      0xa9, 0xb9]"
proof -
  have "words_of_bytes (sha256_pad (map (\<lambda>b. b XOR 0x36) (hmac_key_block (utf8_encode ''testsecret'')) @
     utf8_encode ''1700000000000.GET./keywordstool'')) =
     [0x42534542, 0x45535544, 0x53423636, 0x36363636, 0x36363636, 0x36363636, 0x36363636,
      0x36363636, 0x36363636, 0x36363636, 0x36363636, 0x36363636, 0x36363636, 0x36363636,
      0x36363636, 0x36363636, 0x31373030, 0x30303030, 0x30303030, 0x302e4745, 0x542e2f6b,
      0x6579776f, 0x72647374, 0x6f6f6c80, 0x00000000, 0x00000000, 0x00000000, 0x00000000,
      0x00000000, 0x00000000, 0x00000000, 0x000002f8]"
    by code_simp
  then show ?thesis
    unfolding sha256_def
    by (simp add: compress_ipad_block compress_inner_GET bytes_of_u32_def)
qed

lemma sha256_outer_GET:
  "sha256 (map (\<lambda>b. b XOR 0x5c) (hmac_key_block (utf8_encode ''testsecret'')) @
     [0x6a, 0x72, 0x56, 0x11, 0xef, 0x52, 0x06, 0x93, 0x1a, 0x59, 0x02, 0x86, 0x40, 0x73, 0x94,
      0x3b, 0x5f, 0xa0, 0xcf, 0x5a, 0x6e, 0x81, 0x0a, 0x4a, 0xb1, 0xcb, 0xf7, 0x4c, 0xee, 0xca,
      0xa9, 0xb9]) =
     [0x7e, 0xe1, 0xd7, 0xe3, 0x4b, 0x8d, 0xab, 0x3a, 0x92, 0x6b, 0xc5, 0xdb, 0x3d, 0x22, 0x42,
      0x8e, 0x40, 0xe4, 0x33, 0x12, 0x96, 0x5e, 0xc4, 0xa1, 0xb5, 0x3d, 0xa7, 0x18, 0x7a, 0x5b,
      0xe1, 0xc9]"
proof -
  have "words_of_bytes (sha256_pad (map (\<lambda>b. b XOR 0x5c) (hmac_key_block (utf8_encode ''testsecret'')) @
     [0x6a, 0x72, 0x56, 0x11, 0xef, 0x52, 0x06, 0x93, 0x1a, 0x59, 0x02, 0x86, 0x40, 0x73, 0x94,
      0x3b, 0x5f, 0xa0, 0xcf, 0x5a, 0x6e, 0x81, 0x0a, 0x4a, 0xb1, 0xcb, 0xf7, 0x4c, 0xee, 0xca,
      0xa9, 0xb9])) =
     [0x28392f28, 0x2f393f2e, 0x39285c5c, 0x5c5c5c5c, 0x5c5c5c5c, 0x5c5c5c5c, 0x5c5c5c5c,
      0x5c5c5c5c, 0x5c5c5c5c, 0x5c5c5c5c, 0x5c5c5c5c, 0x5c5c5c5c, 0x5c5c5c5c, 0x5c5c5c5c,
      0x5c5c5c5c, 0x5c5c5c5c, 0x6a725611, 0xef520693, 0x1a590286, 0x4073943b, 0x5fa0cf5a,
      0x6e810a4a, 0xb1cbf74c, 0xeecaa9b9, 0x80000000, 0x00000000, 0x00000000, 0x00000000,
      0x00000000, 0x00000000, 0x00000000, 0x00000300]"
    by code_simp
  then show ?thesis
    unfolding sha256_def
    by (simp add: compress_opad_block compress_outer_GET bytes_of_u32_def)
qed

lemma hmac_sha256_GET:
  "hmac_sha256 (utf8_encode ''testsecret'')
     (utf8_encode ''1700000000000.GET./keywordstool'') =
     [0x7e, 0xe1, 0xd7, 0xe3, 0x4b, 0x8d, 0xab, 0x3a, 0x92, 0x6b, 0xc5, 0xdb, 0x3d, 0x22, 0x42,
      0x8e, 0x40, 0xe4, 0x33, 0x12, 0x96, 0x5e, 0xc4, 0xa1, 0xb5, 0x3d, 0xa7, 0x18, 0x7a, 0x5b,
      0xe1, 0xc9]"
  unfolding hmac_sha256_def sha256_inner_GET sha256_outer_GET ..

lemma signature_GET:
  "make_searchad_signature ''1700000000000'' ''GET'' ''/keywordstool'' ''testsecret'' =
     ''fuHX40uNqzqSa8XbPSJCjkDkMxKWXsShtT2nGHpb4ck=''"
proof -
  have "searchad_message ''1700000000000'' ''GET'' ''/keywordstool'' =
     ''1700000000000.GET./keywordstool''"
    by (simp add: searchad_message_def)
  then show ?thesis
    unfolding make_searchad_signature_def
    by (simp only: hmac_sha256_GET) code_simp
qed

lemma compress_inner_get:
  "compress 
     [0x2ccfca50, 0xd508c5cd, 0xa192f081, 0x82c4c0f1, 0x602091c3, 0x13338e6a, 0xfdc47088,
      0x1d0e2e66]
     [0x31373030, 0x30303030, 0x30303030, 0x302e6765, 0x742e2f6b, 0x6579776f, 0x72647374,
      0x6f6f6c80, 0x00000000, 0x00000000, 0x00000000, 0x00000000, 0x00000000, 0x00000000,
      0x00000000, 0x000002f8] =
     [0xb33af096, 0xf0f8f319, 0xd502817a, 0x6c507932, 0x5adff7c0, 0xd3ba0b74, 0x523b8ad2,
      0x9c034e0b]"
  by (simp add: sha256_round_defs)

lemma compress_outer_get:
  "compress 
     [0x23e1c193, 0x1fc7af6f, 0x90dc2e73, 0xf8b144ee, 0x02dfaaee, 0x6f731a40, 0x982fcf08,
      0xbbe7dfac]
     [0xb33af096, 0xf0f8f319, 0xd502817a, 0x6c507932, 0x5adff7c0, 0xd3ba0b74, 0x523b8ad2,
      0x9c034e0b, 0x80000000, 0x00000000, 0x00000000, 0x00000000, 0x00000000, 0x00000000,
      0x00000000, 0x00000300] =
     [0x6d06d3ef, 0xd4391e0f, 0x218e4195, 0xd009dd03, 0x46cf8c50, 0xfbd4e44b, 0x09f8aab7,
      0x286d24c5]"
  by (simp add: sha256_round_defs)

lemma sha256_inner_get:
  "sha256 (map (\<lambda>b. b XOR 0x36) (hmac_key_block (utf8_encode ''testsecret'')) @
     utf8_encode ''1700000000000.get./keywordstool'') =
     [0xb3, 0x3a, 0xf0, 0x96, 0xf0, 0xf8, 0xf3, 0x19, 0xd5, 0x02, 0x81, 0x7a, 0x6c, 0x50, 0x79,
      0x32, 0x5a, 0xdf, 0xf7, 0xc0, 0xd3, 0xba, 0x0b, 0x74, 0x52, 0x3b, 0x8a, 0xd2, 0x9c, 0x03,
      0x4e, 0x0b]"
proof -
  have "words_of_bytes (sha256_pad (map (\<lambda>b. b XOR 0x36) (hmac_key_block (utf8_encode ''testsecret'')) @
     utf8_encode ''1700000000000.get./keywordstool'')) =
     [0x42534542, 0x45535544, 0x53423636, 0x36363636, 0x36363636, 0x36363636, 0x36363636,
      0x36363636, 0x36363636, 0x36363636, 0x36363636, 0x36363636, 0x36363636, 0x36363636,
      0x36363636, 0x36363636, 0x31373030, 0x30303030, 0x30303030, 0x302e6765, 0x742e2f6b,
      0x6579776f, 0x72647374, 0x6f6f6c80, 0x00000000, 0x00000000, 0x00000000, 0x00000000,
      0x00000000, 0x00000000, 0x00000000, 0x000002f8]"
    by code_simp
  then show ?thesis
    unfolding sha256_def
    by (simp add: compress_ipad_block compress_inner_get bytes_of_u32_def)
qed

lemma sha256_outer_get:
  "sha256 (map (\<lambda>b. b XOR 0x5c) (hmac_key_block (utf8_encode ''testsecret'')) @
     [0xb3, 0x3a, 0xf0, 0x96, 0xf0, 0xf8, 0xf3, 0x19, 0xd5, 0x02, 0x81, 0x7a, 0x6c, 0x50, 0x79,
      0x32, 0x5a, 0xdf, 0xf7, 0xc0, 0xd3, 0xba, 0x0b, 0x74, 0x52, 0x3b, 0x8a, 0xd2, 0x9c, 0x03,
      0x4e, 0x0b]) =
     [0x6d, 0x06, 0xd3, 0xef, 0xd4, 0x39, 0x1e, 0x0f, 0x21, 0x8e, 0x41, 0x95, 0xd0, 0x09, 0xdd,
      0x03, 0x46, 0xcf, 0x8c, 0x50, 0xfb, 0xd4, 0xe4, 0x4b, 0x09, 0xf8, 0xaa, 0xb7, 0x28, 0x6d,
      0x24, 0xc5]"
proof -
  have "words_of_bytes (sha256_pad (map (\<lambda>b. b XOR 0x5c) (hmac_key_block (utf8_encode ''testsecret'')) @
     [0xb3, 0x3a, 0xf0, 0x96, 0xf0, 0xf8, 0xf3, 0x19, 0xd5, 0x02, 0x81, 0x7a, 0x6c, 0x50, 0x79,
      0x32, 0x5a, 0xdf, 0xf7, 0xc0, 0xd3, 0xba, 0x0b, 0x74, 0x52, 0x3b, 0x8a, 0xd2, 0x9c, 0x03,
      0x4e, 0x0b])) =
     [0x28392f28, 0x2f393f2e, 0x39285c5c, 0x5c5c5c5c, 0x5c5c5c5c, 0x5c5c5c5c, 0x5c5c5c5c,
      0x5c5c5c5c, 0x5c5c5c5c, 0x5c5c5c5c, 0x5c5c5c5c, 0x5c5c5c5c, 0x5c5c5c5c, 0x5c5c5c5c,
      0x5c5c5c5c, 0x5c5c5c5c, 0xb33af096, 0xf0f8f319, 0xd502817a, 0x6c507932, 0x5adff7c0,
      0xd3ba0b74, 0x523b8ad2, 0x9c034e0b, 0x80000000, 0x00000000, 0x00000000, 0x00000000,
      0x00000000, 0x00000000, 0x00000000, 0x00000300]"
    by code_simp
  then show ?thesis
    unfolding sha256_def
    by (simp add: compress_opad_block compress_outer_get bytes_of_u32_def)
qed

lemma hmac_sha256_get:
  "hmac_sha256 (utf8_encode ''testsecret'')
     (utf8_encode ''1700000000000.get./keywordstool'') =
     [0x6d, 0x06, 0xd3, 0xef, 0xd4, 0x39, 0x1e, 0x0f, 0x21, 0x8e, 0x41, 0x95, 0xd0, 0x09, 0xdd,
      0x03, 0x46, 0xcf, 0x8c, 0x50, 0xfb, 0xd4, 0xe4, 0x4b, 0x09, 0xf8, 0xaa, 0xb7, 0x28, 0x6d,
      0x24, 0xc5]"
  unfolding hmac_sha256_def sha256_inner_get sha256_outer_get ..

lemma signature_get:
  "make_searchad_signature ''1700000000000'' ''get'' ''/keywordstool'' ''testsecret'' =
     ''bQbT79Q5Hg8hjkGV0AndA0bPjFD71ORLCfiqtyhtJMU=''"
proof -
  have "searchad_message ''1700000000000'' ''get'' ''/keywordstool'' =
     ''1700000000000.get./keywordstool''"
    by (simp add: searchad_message_def)
  then show ?thesis
    unfolding make_searchad_signature_def
    by (simp only: hmac_sha256_get) code_simp
qed

section \<open>The signature: a golden value, and the method as it is passed\<close>

text \<open>
  C1: for the timestamp \<open>1700000000000\<close>, the method \<open>GET\<close>, the uri
  \<open>/keywordstool\<close> and the secret key \<open>testsecret\<close>, the signature is the base64
  encoding, with padding, of the HMAC-SHA256 digest of the message
  \<open>1700000000000.GET./keywordstool\<close> under the key \<open>testsecret\<close>, both in UTF-8;
  this is the string \<open>fuHX40uNqzqSa8XbPSJCjkDkMxKWXsShtT2nGHpb4ck=\<close>.
\<close>

theorem golden_signature:
  "make_searchad_signature ''1700000000000'' ''GET'' ''/keywordstool'' ''testsecret'' =
     ascii_decode (b64encode
       (hmac_sha256 (utf8_encode ''testsecret'')
          (utf8_encode ''1700000000000.GET./keywordstool'')))
   \<and> make_searchad_signature ''1700000000000'' ''GET'' ''/keywordstool'' ''testsecret'' =
     ''fuHX40uNqzqSa8XbPSJCjkDkMxKWXsShtT2nGHpb4ck=''"
proof
  show "make_searchad_signature ''1700000000000'' ''GET'' ''/keywordstool'' ''testsecret'' =
     ascii_decode (b64encode
       (hmac_sha256 (utf8_encode ''testsecret'')
          (utf8_encode ''1700000000000.GET./keywordstool'')))"
    by (simp add: make_searchad_signature_def searchad_message_def)
  show "make_searchad_signature ''1700000000000'' ''GET'' ''/keywordstool'' ''testsecret'' =
     ''fuHX40uNqzqSa8XbPSJCjkDkMxKWXsShtT2nGHpb4ck=''"
    by (rule signature_GET)
qed

text \<open>
  C2, as the code has it: the message is the timestamp, the method exactly as it was passed
  and the uri, joined by dots, with no conversion of case; two methods give the same message
  only when they are the same string.
\<close>

theorem signature_message_verbatim:
  "make_searchad_signature timestamp method uri secret_key =
     ascii_decode (b64encode
       (hmac_sha256 (utf8_encode secret_key)
          (utf8_encode (timestamp @ ''.'' @ method @ ''.'' @ uri))))
   \<and> (searchad_message timestamp method uri = searchad_message timestamp method' uri) =
       (method = method')"
  by (simp add: make_searchad_signature_def searchad_message_def)

text \<open>
  The claim C2 as it is written fails: the method \<open>get\<close> is not converted to \<open>GET\<close>,
  and the two signatures differ.
\<close>

theorem lowercase_method_signature_differs:
  "make_searchad_signature ''1700000000000'' ''get'' ''/keywordstool'' ''testsecret'' \<noteq>
   make_searchad_signature ''1700000000000'' ''GET'' ''/keywordstool'' ''testsecret''"
  unfolding signature_get signature_GET by simp

section \<open>What \<open>int\<close> returns\<close>

lemmas int_of_str_defs =
  int_of_str_def py_strip_def is_space_def signed_digits_def digit_val_def count_digits_def

lemma int_of_str_examples:
  "int_of_str lim ''< 10'' = Inl ValueError"
  "int_of_str 4300 ''-5'' = Inr (- 5)"
  "int_of_str 4300 ''-4'' = Inr (- 4)"
  "int_of_str 4300 ''42'' = Inr 42"
  "int_of_str 4300 ''100'' = Inr 100"
  "int_of_str 4300 ''200'' = Inr 200"
  by (simp_all add: int_of_str_defs)

text \<open>Stripping only removes characters, so a string without a minus sign has no sign to read.\<close>

lemma set_py_strip: "set (py_strip s) \<subseteq> set s"
proof -
  have "set (dropWhile is_space (rev (dropWhile is_space s))) \<subseteq> set (rev (dropWhile is_space s))"
    by (rule set_dropWhileD [THEN subsetI])
  also have "\<dots> \<subseteq> set s"
    using set_dropWhileD [of _ is_space s] by auto
  finally show ?thesis by (simp add: py_strip_def)
qed

lemma signed_digits_nonneg: "signed_digits lim False ds = Inr n \<Longrightarrow> 0 \<le> n"
  by (auto simp: signed_digits_def split: option.splits if_splits)

lemma int_of_str_nonneg:
  assumes "int_of_str lim s = Inr n" and "CHR ''-'' \<notin> set s"
  shows "0 \<le> n"
proof (cases "py_strip s")
  case Nil
  with assms(1) show ?thesis by (simp add: int_of_str_def)
next
  case (Cons c cs)
  then have "c \<in> set s" using set_py_strip [of s] by auto
  with assms(2) have "c \<noteq> CHR ''-''" by auto
  with assms(1) Cons show ?thesis
    by (auto simp: int_of_str_def split: if_splits dest: signed_digits_nonneg)
qed

lemma int_of_float_nonneg: "int_of_float (Finite m e) = Inr n \<Longrightarrow> 0 \<le> m \<Longrightarrow> 0 \<le> n"
  by (auto simp: sgn_if pos_imp_zdiv_nonneg_iff)

lemma py_int_nonneg:
  assumes "py_int lim v = Inr n" and "\<not> negative_value v"
  shows "0 \<le> n"
proof (cases v)
  case (JFloat f)
  show ?thesis
  proof (cases f)
    case (Finite m e)
    with JFloat assms have "int_of_float (Finite m e) = Inr n" and "0 \<le> m"
      by simp_all
    then show ?thesis by (rule int_of_float_nonneg)
  qed (use JFloat assms in simp_all)
next
  case (JStr s)
  with assms show ?thesis by (auto dest: int_of_str_nonneg)
qed (use assms in \<open>auto split: if_splits\<close>)

text \<open>The empty string, \<open>null\<close> and a missing key all count as 0 in \<open>search_volume\<close>.\<close>

lemma lenient_counts:
  "py_int lim (py_or (JStr []) (JInt 0)) = Inr 0"
  "py_int lim (py_or JNull (JInt 0)) = Inr 0"
  "py_int lim (py_or (dict_get [] k (JStr ''0'')) (JInt 0)) = Inr 0"
  by (auto simp: py_or_def dict_get_def dict_lookup_def int_of_str_defs)

section \<open>Rendering\<close>

lemma json_response_Inr: "json_response lim c = Inr r \<Longrightarrow> r = c"
  by (simp add: json_response_def split: if_splits)

lemma int_renders_digit:
  assumes "\<bar>n\<bar> < 10"
  shows "int_renders lim n"
proof -
  from assms have "nat \<bar>n\<bar> < 10" by simp
  then have "length (digits_of (nat \<bar>n\<bar>)) = 1"
    by (subst digits_of.simps) simp
  then show ?thesis
    by (cases lim) (simp_all add: int_renders_def)
qed

lemma int_renders_examples:
  "int_renders 4300 42" "int_renders 4300 100" "int_renders 4300 200" "int_renders 4300 300"
  by (simp_all add: int_renders_def digits_of.simps)

text \<open>The reply with three zeros always renders.\<close>

lemma json_response_zero_counts:
  "json_response lim (volume_reply (JStr keyword) 0 0 0) = Inr (volume_reply (JStr keyword) 0 0 0)"
  by (simp add: json_response_def volume_reply_def int_renders_digit)

section \<open>Lookups\<close>

lemma dict_get_single: "dict_get [(k, v)] k d = v"
  by (simp add: dict_get_def dict_lookup_def)

lemma dict_get_insert_other:
  "k' \<noteq> k \<Longrightarrow> dict_get (pre @ (k, v) # post) k' d = dict_get (pre @ post) k' d"
  by (simp add: dict_get_def dict_lookup_def map_add_def split: option.splits)

lemma py_get_Inr: "py_get v k d = Inr x \<Longrightarrow> \<exists>kvs. v = JObj kvs \<and> x = dict_get kvs k d"
  by (cases v) auto

section \<open>The handlers on concrete responses\<close>

lemma example_env_set:
  "\<not> not_set (NAVER_AD_API_KEY example_env)"
  "\<not> not_set (NAVER_AD_SECRET_KEY example_env)"
  "\<not> not_set (NAVER_AD_CUSTOMER_ID example_env)"
  by (simp_all add: example_env_def not_set_def)

lemma example_env_limit: "int_max_str_digits example_env = 4300"
  by (simp add: example_env_def)

lemmas handler_eval =
  search_volume_data_def ok_response_def dict_get_def dict_lookup_def py_or_def
  example_env_set example_env_limit int_of_str_examples
  json_response_def volume_reply_def int_renders_digit int_renders_examples

text \<open>The two examples of the specification for \<open>blog-total\<close>, and the one for \<open>search-volume\<close>.\<close>

lemma blog_total_42:
  "snd (blog_total example_env (\<lambda>req. Responded (ok_response (JObj [(''total'', JStr ''42'')])))
          ''apple'') =
     Inr (JObj [(''keyword'', JStr ''apple''), (''total'', JInt 42)])"
  by (simp add: blog_total_def handler_eval)

lemma blog_total_absent:
  "snd (blog_total cfg (\<lambda>req. Responded (ok_response (JObj []))) query) =
     Inr (JObj [(''keyword'', JStr query), (''total'', JInt 0)])"
  by (simp add: blog_total_def ok_response_def dict_get_def dict_lookup_def
      json_response_def int_renders_digit)

text \<open>
  A reply that cannot be rendered fails the request: here upstream's \<open>relKeyword\<close> is the
  float \<open>nan\<close>.
\<close>

lemma search_volume_nan_keyword_unhandled:
  "snd (search_volume example_env now_ms
          (\<lambda>req. Responded (ok_response
             (JObj [(''keywordList'', JArr [JObj [(''relKeyword'', JFloat NaN)]])])))
          ''apple'') =
     Inl (Unhandled ValueError)"
  by (simp add: search_volume_def handler_eval int_of_str_defs)

lemma search_volume_apple:
  "snd (search_volume example_env now_ms (\<lambda>req. Responded (ok_response apple_body)) ''apple'') =
     Inr (volume_reply (JStr ''apple'') 100 200 300)"
  by (simp add: search_volume_def apple_body_def handler_eval)


section \<open>Upstream errors and missing settings\<close>

text \<open>
  C5: when upstream answers with a status other than 200, each handler fails the request
  with that status and with the text of upstream's response, unchanged, as the detail.
  \<open>search_volume\<close> reaches upstream only when its three settings are present.
\<close>

theorem upstream_error_propagated:
  "(net (blog_request cfg query) = Responded resp \<and> status_code resp \<noteq> 200 \<longrightarrow>
      snd (blog_total cfg net query) =
        Inl (HTTPException (status_code resp) (Text (resp_text resp))))
   \<and> (\<not> not_set (NAVER_AD_API_KEY cfg) \<and> \<not> not_set (NAVER_AD_SECRET_KEY cfg) \<and>
      \<not> not_set (NAVER_AD_CUSTOMER_ID cfg) \<and>
      net (searchad_request cfg now_ms keyword) = Responded resp' \<and>
      status_code resp' \<noteq> 200 \<longrightarrow>
      snd (search_volume cfg now_ms net keyword) =
        Inl (HTTPException (status_code resp') (Text (resp_text resp'))))"
  by (simp add: blog_total_def search_volume_def)

text \<open>The specification's example, a 403 for \<open>blog-total\<close>, and a 401 for \<open>search-volume\<close>.\<close>

theorem upstream_error_propagated_witness:
  "snd (blog_total example_env
          (\<lambda>req. Responded \<lparr>status_code = 403, resp_text = ''forbidden'', resp_json = None\<rparr>)
          ''apple'') =
     Inl (HTTPException 403 (Text ''forbidden''))
   \<and> snd (search_volume example_env 1700000000000
          (\<lambda>req. Responded \<lparr>status_code = 401, resp_text = ''denied'', resp_json = None\<rparr>)
          ''apple'') =
     Inl (HTTPException 401 (Text ''denied''))"
  using upstream_error_propagated
    [of "\<lambda>req. Responded \<lparr>status_code = 403, resp_text = ''forbidden'', resp_json = None\<rparr>"
        example_env "''apple''"
        "\<lparr>status_code = 403, resp_text = ''forbidden'', resp_json = None\<rparr>"]
    upstream_error_propagated
    [of "\<lambda>req. Responded \<lparr>status_code = 401, resp_text = ''denied'', resp_json = None\<rparr>"
        example_env "''apple''" _ 1700000000000 "''apple''"
        "\<lparr>status_code = 401, resp_text = ''denied'', resp_json = None\<rparr>"]
  by (simp add: example_env_set)

text \<open>
  C6: when one of the three advertising settings is missing, \<open>search_volume\<close> fails with
  status 500 and has sent no request.
\<close>

theorem missing_secret_rejected_before_call:
  "NAVER_AD_API_KEY cfg = None \<or> NAVER_AD_SECRET_KEY cfg = None \<or>
   NAVER_AD_CUSTOMER_ID cfg = None \<Longrightarrow>
   search_volume cfg now_ms net keyword = ([], Inl (HTTPException 500 AdKeysNotSet))"
  by (auto simp: search_volume_def not_set_def)

theorem missing_secret_rejected_before_call_witness:
  "NAVER_AD_SECRET_KEY (example_env\<lparr>NAVER_AD_SECRET_KEY := None\<rparr>) = None
   \<and> search_volume (example_env\<lparr>NAVER_AD_SECRET_KEY := None\<rparr>) 1700000000000
        (\<lambda>req. Responded (ok_response (JObj []))) ''apple'' =
      ([], Inl (HTTPException 500 AdKeysNotSet))"
  using missing_secret_rejected_before_call
    [of "example_env\<lparr>NAVER_AD_SECRET_KEY := None\<rparr>" 1700000000000
        "\<lambda>req. Responded (ok_response (JObj []))" "''apple''"]
  by simp

text \<open>
  C10: a setting that is the empty string counts as missing: \<open>search_volume\<close> fails with
  status 500 and has sent no request.
\<close>

theorem empty_secret_rejected_before_call:
  "NAVER_AD_API_KEY cfg = Some [] \<or> NAVER_AD_SECRET_KEY cfg = Some [] \<or>
   NAVER_AD_CUSTOMER_ID cfg = Some [] \<Longrightarrow>
   search_volume cfg now_ms net keyword = ([], Inl (HTTPException 500 AdKeysNotSet))"
  by (auto simp: search_volume_def not_set_def)

theorem empty_secret_rejected_before_call_witness:
  "NAVER_AD_CUSTOMER_ID (example_env\<lparr>NAVER_AD_CUSTOMER_ID := Some []\<rparr>) = Some []
   \<and> search_volume (example_env\<lparr>NAVER_AD_CUSTOMER_ID := Some []\<rparr>) 1700000000000
        (\<lambda>req. Responded (ok_response (JObj []))) ''apple'' =
      ([], Inl (HTTPException 500 AdKeysNotSet))"
  using empty_secret_rejected_before_call
    [of "example_env\<lparr>NAVER_AD_CUSTOMER_ID := Some []\<rparr>" 1700000000000
        "\<lambda>req. Responded (ok_response (JObj []))" "''apple''"]
  by simp

section \<open>The counts of a reply\<close>

text \<open>
  C3 says that \<open>blog_total\<close> answers 0 whenever \<open>total\<close> cannot be made an integer, and
  never fails the request for a malformed count.  The handler catches \<open>TypeError\<close> and
  \<open>ValueError\<close> only.  For a body such as \<open>{"total": 1e999}\<close>, which the decoder reads
  as a float infinity, \<open>int\<close> raises \<open>OverflowError\<close>, and the request fails.
\<close>

theorem blog_total_infinite_total_unhandled:
  "snd (blog_total cfg
          (\<lambda>req. Responded \<lparr>status_code = 200, resp_text = body,
                              resp_json = Some (JObj [(''total'', JFloat PosInf)])\<rparr>)
          query) =
     Inl (Unhandled OverflowError)"
  by (simp add: blog_total_def dict_get_def dict_lookup_def)

text \<open>
  C7: when upstream answers 200 and the body has no \<open>keywordList\<close>, or an empty one, the
  reply is the keyword of the request with the three counts 0.
\<close>

theorem empty_keyword_list_zero_counts:
  assumes "\<not> not_set (NAVER_AD_API_KEY cfg)" and "\<not> not_set (NAVER_AD_SECRET_KEY cfg)"
    and "\<not> not_set (NAVER_AD_CUSTOMER_ID cfg)"
    and "net (searchad_request cfg now_ms keyword) = Responded resp"
    and "status_code resp = 200"
    and "resp_json resp = Some (JObj kvs)"
    and "dict_lookup kvs ''keywordList'' = None \<or>
         dict_lookup kvs ''keywordList'' = Some (JArr [])"
  shows "snd (search_volume cfg now_ms net keyword) =
     Inr (JObj [(''keyword'', JStr keyword), (''monthlyPcQcCnt'', JInt 0),
                (''monthlyMobileQcCnt'', JInt 0), (''monthlyTotalQcCnt'', JInt 0)])"
proof -
  from assms(7) have "dict_get kvs ''keywordList'' (JArr []) = JArr []"
    by (auto simp: dict_get_def)
  then have "search_volume_data (int_max_str_digits cfg) keyword (JObj kvs) =
      Inr (volume_reply (JStr keyword) 0 0 0)"
    by (simp add: search_volume_data_def json_response_zero_counts)
  with assms(1-6) show ?thesis
    by (simp add: search_volume_def volume_reply_def)
qed

text \<open>An empty \<open>keywordList\<close>, and a body without the key.\<close>

theorem empty_keyword_list_zero_counts_witness:
  "snd (search_volume example_env 1700000000000
          (\<lambda>req. Responded (ok_response (JObj [(''keywordList'', JArr [])]))) ''apple'') =
     Inr (JObj [(''keyword'', JStr ''apple''), (''monthlyPcQcCnt'', JInt 0),
                (''monthlyMobileQcCnt'', JInt 0), (''monthlyTotalQcCnt'', JInt 0)])
   \<and> snd (search_volume example_env 1700000000000
          (\<lambda>req. Responded (ok_response (JObj [(''other'', JInt 1)]))) ''apple'') =
     Inr (JObj [(''keyword'', JStr ''apple''), (''monthlyPcQcCnt'', JInt 0),
                (''monthlyMobileQcCnt'', JInt 0), (''monthlyTotalQcCnt'', JInt 0)])"
  using empty_keyword_list_zero_counts
    [of example_env "\<lambda>req. Responded (ok_response (JObj [(''keywordList'', JArr [])]))"
        1700000000000 "''apple''" "ok_response (JObj [(''keywordList'', JArr [])])"
        "[(''keywordList'', JArr [])]"]
    empty_keyword_list_zero_counts
    [of example_env "\<lambda>req. Responded (ok_response (JObj [(''other'', JInt 1)]))"
        1700000000000 "''apple''" "ok_response (JObj [(''other'', JInt 1)])"
        "[(''other'', JInt 1)]"]
  by (simp add: example_env_set ok_response_def dict_lookup_def)

text \<open>
  C8 says that a malformed \<open>monthlyPcQcCnt\<close> or \<open>monthlyMobileQcCnt\<close> never fails the
  request.  \<open>search_volume\<close> calls \<open>int\<close> outside any \<open>try\<close>: the empty string,
  \<open>null\<close> and a missing key become 0 (lemma \<open>lenient_counts\<close>), but for a string that is
  not a number, such as \<open>< 10\<close>, the \<open>ValueError\<close> fails the request.
\<close>

theorem search_volume_malformed_count_unhandled:
  "snd (search_volume example_env now_ms
          (\<lambda>req. Responded (ok_response
             (JObj [(''keywordList'',
                JArr [JObj [(''relKeyword'', JStr ''apple''),
                            (''monthlyPcQcCnt'', JStr ''< 10''),
                            (''monthlyMobileQcCnt'', JStr ''20'')]])])))
          ''apple'') =
     Inl (Unhandled ValueError)"
  by (simp add: search_volume_def handler_eval)

text \<open>
  A reply of \<open>search_volume\<close> always has the four keys, with the total the sum of the two
  counts beside it.
\<close>

lemma search_volume_data_reply:
  assumes "search_volume_data lim keyword data = Inr reply"
  shows "\<exists>kw pc mobile. reply = volume_reply kw pc mobile (pc + mobile)"
proof (cases "py_get data ''keywordList'' (JArr [])")
  case (Inl e)
  with assms show ?thesis by (simp add: search_volume_data_def)
next
  case (Inr kw_list)
  show ?thesis
  proof (cases "truthy kw_list")
    case False
    with assms Inr have "reply = volume_reply (JStr keyword) 0 0 (0 + 0)"
      by (auto simp: search_volume_data_def dest: json_response_Inr)
    then show ?thesis by blast
  next
    case True
    with assms Inr show ?thesis
      by (auto simp: search_volume_data_def split: sum.splits dest!: json_response_Inr)
  qed
qed

lemma search_volume_ignores_upstream_total:
  "search_volume_data lim keyword
     (JObj [(''keywordList'', JArr (JObj (pre @ (''monthlyTotalQcCnt'', v) # post) # rest))]) =
   search_volume_data lim keyword
     (JObj [(''keywordList'', JArr (JObj (pre @ post) # rest))])"
  by (simp add: search_volume_data_def dict_get_single dict_get_insert_other
      cong: sum.case_cong)

text \<open>
  C9: in every reply of \<open>search_volume\<close>, \<open>monthlyTotalQcCnt\<close> is the sum of the
  \<open>monthlyPcQcCnt\<close> and \<open>monthlyMobileQcCnt\<close> of the reply; and a
  \<open>monthlyTotalQcCnt\<close> that upstream puts into the first element of \<open>keywordList\<close>
  changes nothing in what the handler returns.
\<close>

theorem monthly_total_is_sum:
  "(snd (search_volume cfg now_ms net keyword) = Inr reply \<longrightarrow>
      (\<exists>kw pc mobile.
         reply = JObj [(''keyword'', kw), (''monthlyPcQcCnt'', JInt pc),
                       (''monthlyMobileQcCnt'', JInt mobile),
                       (''monthlyTotalQcCnt'', JInt (pc + mobile))]))
   \<and> snd (search_volume cfg now_ms
        (\<lambda>req. Responded (ok_response (JObj [(''keywordList'',
           JArr (JObj (pre @ (''monthlyTotalQcCnt'', v) # post) # rest))]))) keyword) =
     snd (search_volume cfg now_ms
        (\<lambda>req. Responded (ok_response (JObj [(''keywordList'',
           JArr (JObj (pre @ post) # rest))]))) keyword)"
proof (intro conjI impI)
  assume ok: "snd (search_volume cfg now_ms net keyword) = Inr reply"
  then obtain data where
    "search_volume_data (int_max_str_digits cfg) keyword data = Inr reply"
    by (auto simp: search_volume_def split: if_splits net_outcome.splits option.splits)
  then have "\<exists>kw pc mobile. reply = volume_reply kw pc mobile (pc + mobile)"
    by (rule search_volume_data_reply)
  then show "\<exists>kw pc mobile.
         reply = JObj [(''keyword'', kw), (''monthlyPcQcCnt'', JInt pc),
                       (''monthlyMobileQcCnt'', JInt mobile),
                       (''monthlyTotalQcCnt'', JInt (pc + mobile))]"
    by (simp add: volume_reply_def)
next
  show "snd (search_volume cfg now_ms
        (\<lambda>req. Responded (ok_response (JObj [(''keywordList'',
           JArr (JObj (pre @ (''monthlyTotalQcCnt'', v) # post) # rest))]))) keyword) =
     snd (search_volume cfg now_ms
        (\<lambda>req. Responded (ok_response (JObj [(''keywordList'',
           JArr (JObj (pre @ post) # rest))]))) keyword)"
    by (simp add: search_volume_def ok_response_def search_volume_ignores_upstream_total)
qed

text \<open>
  The specification's example, with a total of 999 from upstream in the first element: the
  reply has 100, 200 and 300.
\<close>

theorem monthly_total_is_sum_witness:
  "snd (search_volume example_env 1700000000000
          (\<lambda>req. Responded (ok_response apple_body)) ''apple'') =
     Inr (volume_reply (JStr ''apple'') 100 200 300)
   \<and> (\<exists>kw pc mobile.
         volume_reply (JStr ''apple'') 100 200 300 =
           JObj [(''keyword'', kw), (''monthlyPcQcCnt'', JInt pc),
                 (''monthlyMobileQcCnt'', JInt mobile),
                 (''monthlyTotalQcCnt'', JInt (pc + mobile))])"
proof (rule conjI)
  show e: "snd (search_volume example_env 1700000000000
          (\<lambda>req. Responded (ok_response apple_body)) ''apple'') =
     Inr (volume_reply (JStr ''apple'') 100 200 300)"
    by (rule search_volume_apple)
  show "\<exists>kw pc mobile.
         volume_reply (JStr ''apple'') 100 200 300 =
           JObj [(''keyword'', kw), (''monthlyPcQcCnt'', JInt pc),
                 (''monthlyMobileQcCnt'', JInt mobile),
                 (''monthlyTotalQcCnt'', JInt (pc + mobile))]"
    by (rule monthly_total_is_sum [THEN conjunct1, THEN mp, OF e])
qed

section \<open>The sign of the counts\<close>

text \<open>A value that counts as false is never coerced to a negative integer.\<close>

lemma coerces_negative_falsy:
  assumes "\<not> truthy v"
  shows "\<not> coerces_negative lim v"
proof (cases v)
  case (JFloat f)
  with assms show ?thesis
    by (cases f) (simp_all add: coerces_negative_def)
next
  case (JStr s)
  with assms show ?thesis
    by (simp add: coerces_negative_def int_of_str_def py_strip_def)
qed (use assms in \<open>simp_all add: coerces_negative_def\<close>)

lemma py_or_sign:
  assumes "py_int lim (py_or v (JInt 0)) = Inr n"
  shows "(0 \<le> n) = (\<not> coerces_negative lim v)"
proof (cases "truthy v")
  case True
  with assms show ?thesis
    by (auto simp: py_or_def coerces_negative_def)
next
  case False
  with assms have "n = 0" by (simp add: py_or_def)
  with False show ?thesis by (simp add: coerces_negative_falsy)
qed

text \<open>A value without a minus sign is not coerced to a negative integer.\<close>

lemma not_negative_value_not_coerced:
  "\<not> negative_value v \<Longrightarrow> \<not> coerces_negative lim v"
  by (auto simp: coerces_negative_def split: sum.splits dest: py_int_nonneg)

text \<open>
  A negative number is coerced to itself; the string \<open>5-\<close> is refused and the float
  \<open>-0.5\<close> is truncated to 0, so neither is coerced to a negative integer.
\<close>

lemma coerces_negative_examples:
  "coerces_negative lim (JInt n) = (n < 0)"
  "\<not> coerces_negative lim (JStr ''5-'')"
  "\<not> coerces_negative lim (JFloat (Finite (- 1) (- 1)))"
  "coerces_negative 4300 (JStr ''-4'')"
  by (simp_all add: coerces_negative_def int_of_str_defs int_of_str_examples)

lemma first_item_JObj: "first_item v = Inr (JObj f) \<Longrightarrow> \<exists>rest. v = JArr (JObj f # rest)"
  by (cases v rule: first_item.cases) auto

lemma upstream_count_first:
  "dict_get kvs ''keywordList'' (JArr []) = JArr (JObj first # rest) \<Longrightarrow>
   upstream_count kvs field = dict_get first field (JStr ''0'')"
  by (simp add: upstream_count_def)

lemma upstream_count_none:
  "\<not> truthy (dict_get kvs ''keywordList'' (JArr [])) \<Longrightarrow> upstream_count kvs field = JInt 0"
  by (auto simp: upstream_count_def split: json.splits list.splits)

lemma blog_total_sign:
  assumes "snd (blog_total cfg net query) = Inr reply"
    and "net (blog_request cfg query) = Responded resp"
    and "resp_json resp = Some (JObj kvs)"
  shows "\<exists>n. reply = JObj [(''keyword'', JStr query), (''total'', JInt n)] \<and>
           (0 \<le> n) =
             (\<not> coerces_negative (int_max_str_digits cfg) (dict_get kvs ''total'' (JInt 0)))"
proof (cases "py_int (int_max_str_digits cfg) (dict_get kvs ''total'' (JInt 0))")
  case (Inl e)
  with assms have "reply = JObj [(''keyword'', JStr query), (''total'', JInt 0)]"
    by (auto simp: blog_total_def split: if_splits dest: json_response_Inr)
  with Inl show ?thesis by (simp add: coerces_negative_def)
next
  case (Inr n)
  with assms have "reply = JObj [(''keyword'', JStr query), (''total'', JInt n)]"
    by (auto simp: blog_total_def split: if_splits dest: json_response_Inr)
  with Inr show ?thesis by (auto simp: coerces_negative_def)
qed

lemma search_volume_data_sign:
  assumes "search_volume_data lim keyword (JObj kvs) = Inr reply"
  shows "\<exists>kw pc mobile. reply = volume_reply kw pc mobile (pc + mobile) \<and>
           (0 \<le> pc) = (\<not> coerces_negative lim (upstream_count kvs ''monthlyPcQcCnt'')) \<and>
           (0 \<le> mobile) = (\<not> coerces_negative lim (upstream_count kvs ''monthlyMobileQcCnt''))"
proof (cases "truthy (dict_get kvs ''keywordList'' (JArr []))")
  case False
  with assms have "reply = volume_reply (JStr keyword) 0 0 (0 + 0)"
    by (auto simp: search_volume_data_def dest: json_response_Inr)
  moreover from False have "\<not> coerces_negative lim (upstream_count kvs field)" for field
    by (simp add: upstream_count_none coerces_negative_def)
  ultimately show ?thesis
    by (intro exI [of _ "JStr keyword"] exI [of _ 0]) simp
next
  case True
  with assms obtain first pc mobile kw where
    f: "first_item (dict_get kvs ''keywordList'' (JArr [])) = Inr (JObj first)"
    and pc: "py_int lim (py_or (dict_get first ''monthlyPcQcCnt'' (JStr ''0'')) (JInt 0)) = Inr pc"
    and mobile:
      "py_int lim (py_or (dict_get first ''monthlyMobileQcCnt'' (JStr ''0'')) (JInt 0)) =
         Inr mobile"
    and r: "reply = volume_reply kw pc mobile (pc + mobile)"
    by (auto simp: search_volume_data_def split: sum.splits
        dest!: py_get_Inr json_response_Inr)
  from f obtain rest where
    "dict_get kvs ''keywordList'' (JArr []) = JArr (JObj first # rest)"
    by (auto dest: first_item_JObj)
  then have u: "upstream_count kvs field = dict_get first field (JStr ''0'')" for field
    by (rule upstream_count_first)
  from pc have "(0 \<le> pc) = (\<not> coerces_negative lim (upstream_count kvs ''monthlyPcQcCnt''))"
    unfolding u by (rule py_or_sign)
  moreover from mobile have
    "(0 \<le> mobile) = (\<not> coerces_negative lim (upstream_count kvs ''monthlyMobileQcCnt''))"
    unfolding u by (rule py_or_sign)
  ultimately show ?thesis using r
    by (intro exI [of _ kw] exI [of _ pc] exI [of _ mobile]) simp
qed

lemma search_volume_sign:
  assumes "snd (search_volume cfg now_ms net keyword) = Inr reply"
    and "net (searchad_request cfg now_ms keyword) = Responded resp"
    and "resp_json resp = Some (JObj kvs)"
  shows "\<exists>kw pc mobile. reply = volume_reply kw pc mobile (pc + mobile) \<and>
           (0 \<le> pc) =
             (\<not> coerces_negative (int_max_str_digits cfg)
                  (upstream_count kvs ''monthlyPcQcCnt'')) \<and>
           (0 \<le> mobile) =
             (\<not> coerces_negative (int_max_str_digits cfg)
                  (upstream_count kvs ''monthlyMobileQcCnt''))"
proof -
  from assms have
    "search_volume_data (int_max_str_digits cfg) keyword (JObj kvs) = Inr reply"
    by (auto simp: search_volume_def split: if_splits)
  then show ?thesis by (rule search_volume_data_sign)
qed

text \<open>
  C4, as the code has it: in a reply, each count that is read from upstream is at least 0
  exactly when the upstream value of that count is not coerced to a negative integer, field
  by field: the \<open>total\<close> of \<open>blog_total\<close>, and the \<open>monthlyPcQcCnt\<close> and
  \<open>monthlyMobileQcCnt\<close> of \<open>search_volume\<close>.  The \<open>monthlyTotalQcCnt\<close> is the sum of
  the two counts beside it, so it is at least 0 whenever both are.
\<close>

theorem count_fields_nonnegative:
  "(snd (blog_total cfg net query) = Inr reply \<and>
    net (blog_request cfg query) = Responded resp \<and>
    resp_json resp = Some (JObj kvs) \<longrightarrow>
      (\<exists>n. reply = JObj [(''keyword'', JStr query), (''total'', JInt n)] \<and>
         (0 \<le> n) =
           (\<not> coerces_negative (int_max_str_digits cfg) (dict_get kvs ''total'' (JInt 0)))))
   \<and> (snd (search_volume cfg now_ms net keyword) = Inr reply \<and>
    net (searchad_request cfg now_ms keyword) = Responded resp \<and>
    resp_json resp = Some (JObj kvs) \<longrightarrow>
      (\<exists>kw pc mobile.
         reply = JObj [(''keyword'', kw), (''monthlyPcQcCnt'', JInt pc),
                       (''monthlyMobileQcCnt'', JInt mobile),
                       (''monthlyTotalQcCnt'', JInt (pc + mobile))] \<and>
         (0 \<le> pc) =
           (\<not> coerces_negative (int_max_str_digits cfg)
                (upstream_count kvs ''monthlyPcQcCnt'')) \<and>
         (0 \<le> mobile) =
           (\<not> coerces_negative (int_max_str_digits cfg)
                (upstream_count kvs ''monthlyMobileQcCnt'')) \<and>
         (0 \<le> pc \<and> 0 \<le> mobile \<longrightarrow> 0 \<le> pc + mobile)))"
proof (intro conjI impI)
  assume "snd (blog_total cfg net query) = Inr reply \<and>
    net (blog_request cfg query) = Responded resp \<and>
    resp_json resp = Some (JObj kvs)"
  then show "\<exists>n. reply = JObj [(''keyword'', JStr query), (''total'', JInt n)] \<and>
         (0 \<le> n) =
           (\<not> coerces_negative (int_max_str_digits cfg) (dict_get kvs ''total'' (JInt 0)))"
    using blog_total_sign [of cfg net query reply resp kvs] by simp
next
  assume "snd (search_volume cfg now_ms net keyword) = Inr reply \<and>
    net (searchad_request cfg now_ms keyword) = Responded resp \<and>
    resp_json resp = Some (JObj kvs)"
  then obtain kw pc mobile where
    "reply = volume_reply kw pc mobile (pc + mobile)"
    "(0 \<le> pc) =
       (\<not> coerces_negative (int_max_str_digits cfg) (upstream_count kvs ''monthlyPcQcCnt''))"
    "(0 \<le> mobile) =
       (\<not> coerces_negative (int_max_str_digits cfg)
            (upstream_count kvs ''monthlyMobileQcCnt''))"
    using search_volume_sign [of cfg now_ms net keyword reply resp kvs] by blast
  then show "\<exists>kw pc mobile.
         reply = JObj [(''keyword'', kw), (''monthlyPcQcCnt'', JInt pc),
                       (''monthlyMobileQcCnt'', JInt mobile),
                       (''monthlyTotalQcCnt'', JInt (pc + mobile))] \<and>
         (0 \<le> pc) =
           (\<not> coerces_negative (int_max_str_digits cfg)
                (upstream_count kvs ''monthlyPcQcCnt'')) \<and>
         (0 \<le> mobile) =
           (\<not> coerces_negative (int_max_str_digits cfg)
                (upstream_count kvs ''monthlyMobileQcCnt'')) \<and>
         (0 \<le> pc \<and> 0 \<le> mobile \<longrightarrow> 0 \<le> pc + mobile)"
    by (intro exI [of _ kw] exI [of _ pc] exI [of _ mobile]) (simp add: volume_reply_def)
qed

text \<open>
  The specification's example for \<open>blog_total\<close>, and a body for \<open>search_volume\<close> in
  which only the second count is negative: the first count of the reply is 5.
\<close>

lemma search_volume_mixed:
  "snd (search_volume example_env now_ms (\<lambda>req. Responded (ok_response mixed_body)) ''apple'') =
     Inr (JObj [(''keyword'', JStr ''apple''), (''monthlyPcQcCnt'', JInt 5),
                (''monthlyMobileQcCnt'', JInt (- 4)), (''monthlyTotalQcCnt'', JInt 1)])"
  by (simp add: search_volume_def mixed_body_def handler_eval)

theorem count_fields_nonnegative_witness:
  "(\<exists>n. JObj [(''keyword'', JStr ''apple''), (''total'', JInt 42)] =
        JObj [(''keyword'', JStr ''apple''), (''total'', JInt n)] \<and>
      (0 \<le> n) =
        (\<not> coerces_negative (int_max_str_digits example_env)
             (dict_get [(''total'', JStr ''42'')] ''total'' (JInt 0))))
   \<and> (\<exists>kw pc mobile.
        JObj [(''keyword'', JStr ''apple''), (''monthlyPcQcCnt'', JInt 5),
              (''monthlyMobileQcCnt'', JInt (- 4)), (''monthlyTotalQcCnt'', JInt 1)] =
        JObj [(''keyword'', kw), (''monthlyPcQcCnt'', JInt pc),
              (''monthlyMobileQcCnt'', JInt mobile),
              (''monthlyTotalQcCnt'', JInt (pc + mobile))] \<and>
        (0 \<le> pc) =
          (\<not> coerces_negative (int_max_str_digits example_env)
               (upstream_count
                  [(''keywordList'',
                    JArr [JObj [(''monthlyPcQcCnt'', JInt 5),
                                (''monthlyMobileQcCnt'', JStr ''-4'')]])]
                  ''monthlyPcQcCnt'')) \<and>
        (0 \<le> mobile) =
          (\<not> coerces_negative (int_max_str_digits example_env)
               (upstream_count
                  [(''keywordList'',
                    JArr [JObj [(''monthlyPcQcCnt'', JInt 5),
                                (''monthlyMobileQcCnt'', JStr ''-4'')]])]
                  ''monthlyMobileQcCnt'')) \<and>
        (0 \<le> pc \<and> 0 \<le> mobile \<longrightarrow> 0 \<le> pc + mobile))"
proof -
  let ?net = "\<lambda>req :: request. Responded (ok_response (JObj [(''total'', JStr ''42'')]))"
  let ?net' = "\<lambda>req :: request. Responded (ok_response mixed_body)"
  have b: "snd (blog_total example_env ?net ''apple'') =
        Inr (JObj [(''keyword'', JStr ''apple''), (''total'', JInt 42)]) \<and>
      ?net (blog_request example_env ''apple'') =
        Responded (ok_response (JObj [(''total'', JStr ''42'')])) \<and>
      resp_json (ok_response (JObj [(''total'', JStr ''42'')])) =
        Some (JObj [(''total'', JStr ''42'')])"
    by (intro conjI) (rule blog_total_42, simp_all add: ok_response_def)
  have s: "snd (search_volume example_env 1700000000000 ?net' ''apple'') =
        Inr (JObj [(''keyword'', JStr ''apple''), (''monthlyPcQcCnt'', JInt 5),
                   (''monthlyMobileQcCnt'', JInt (- 4)), (''monthlyTotalQcCnt'', JInt 1)]) \<and>
      ?net' (searchad_request example_env 1700000000000 ''apple'') =
        Responded (ok_response mixed_body) \<and>
      resp_json (ok_response mixed_body) =
        Some (JObj [(''keywordList'',
          JArr [JObj [(''monthlyPcQcCnt'', JInt 5),
                      (''monthlyMobileQcCnt'', JStr ''-4'')]])])"
    by (intro conjI)
      (rule search_volume_mixed, simp_all add: ok_response_def mixed_body_def)
  show ?thesis
    by (rule conjI [OF count_fields_nonnegative [THEN conjunct1, THEN mp, OF b]
          count_fields_nonnegative [THEN conjunct2, THEN mp, OF s]])
qed

text \<open>
  The claim C4 as it is written fails: a negative count from upstream, as a number or as a
  string, comes back unchanged, and the total of two such counts is negative.
\<close>

theorem negative_counts_pass_through:
  "snd (blog_total example_env
          (\<lambda>req. Responded (ok_response (JObj [(''total'', JStr ''-5'')]))) ''apple'') =
     Inr (JObj [(''keyword'', JStr ''apple''), (''total'', JInt (- 5))])
   \<and> snd (search_volume example_env 1700000000000
          (\<lambda>req. Responded (ok_response
             (JObj [(''keywordList'',
                JArr [JObj [(''monthlyPcQcCnt'', JInt (- 3)),
                            (''monthlyMobileQcCnt'', JStr ''-4'')]])])))
          ''apple'') =
     Inr (JObj [(''keyword'', JStr ''apple''), (''monthlyPcQcCnt'', JInt (- 3)),
                (''monthlyMobileQcCnt'', JInt (- 4)), (''monthlyTotalQcCnt'', JInt (- 7))])"
  by (simp add: blog_total_def search_volume_def handler_eval)


end
